theory Spec2Isabelle
  imports Complex_Main
begin

section \<open>Project Omega: the scoring core\<close>

text \<open>
  The scoring functions of the repository are the Python functions of the implementation
  reference (AUTOMATED_TAB_DEBUG_GUIDE.md) and the JavaScript methods of the browser
  application (app.js). Numbers are modelled as exact reals: the model is the source's
  arithmetic without the rounding of binary floating point. Python integers are \<open>int\<close>.
\<close>

subsection \<open>Divergence scoring (calculate_divergence_score, classify_divergence)\<close>

text \<open>
  \<^verbatim>\<open>calculate_divergence_score(price_slope, cvd_slope, price_r, cvd_r)\<close>: the two slopes are
  weighted by the absolute correlation, and an if/elif chain over four fixed thresholds
  picks the score.
\<close>

definition calculate_divergence_score :: "real \<Rightarrow> real \<Rightarrow> real \<Rightarrow> real \<Rightarrow> int" where
  "calculate_divergence_score price_slope cvd_slope price_r cvd_r =
     (let price_trend = price_slope * \<bar>price_r\<bar>;
          cvd_trend = cvd_slope * \<bar>cvd_r\<bar>;
          strong_positive = 0.1;
          weak_positive = 0.02;
          weak_negative = - 0.02;
          strong_negative = - 0.1
      in if cvd_trend > strong_positive \<and> price_trend < weak_positive then 10
         else if cvd_trend > weak_positive \<and> price_trend < weak_negative then 9
         else if cvd_trend > strong_positive \<and> price_trend > weak_positive then 7
         else if cvd_trend > weak_positive \<and> price_trend > weak_positive then 6
         else if cvd_trend < weak_negative \<and> price_trend > strong_positive then 3
         else if cvd_trend < strong_negative then 2
         else 5)"

text \<open>
  \<^verbatim>\<open>classify_divergence(price_slope, cvd_slope)\<close>: the label reported in the metadata. It
  reads the signs of the two raw slopes only.
\<close>

definition classify_divergence :: "real \<Rightarrow> real \<Rightarrow> string" where
  "classify_divergence price_slope cvd_slope =
     (if cvd_slope > 0 \<and> price_slope \<le> 0 then ''bullish_divergence''
      else if cvd_slope < 0 \<and> price_slope \<ge> 0 then ''bearish_divergence''
      else if cvd_slope > 0 \<and> price_slope > 0 then ''confluence_bullish''
      else if cvd_slope < 0 \<and> price_slope < 0 then ''confluence_bearish''
      else ''neutral'')"

text \<open>
  The rule table of the specification, written from its words: each rule is a guard on
  (cvd_trend, price_trend) with a score, the rules are tried in order, the first whose
  guard holds gives the score, and 5 is the score when none holds.
\<close>

definition spec_divergence_rules :: "((real \<Rightarrow> real \<Rightarrow> bool) \<times> int) list" where
  "spec_divergence_rules =
     [(\<lambda>cvd_trend price_trend. cvd_trend > 0.1 \<and> price_trend < 0.02, 10),
      (\<lambda>cvd_trend price_trend. cvd_trend > 0.02 \<and> price_trend < - 0.02, 9),
      (\<lambda>cvd_trend price_trend. cvd_trend > 0.1 \<and> price_trend > 0.02, 7),
      (\<lambda>cvd_trend price_trend. cvd_trend > 0.02 \<and> price_trend > 0.02, 6),
      (\<lambda>cvd_trend price_trend. cvd_trend < - 0.02 \<and> price_trend > 0.1, 3),
      (\<lambda>cvd_trend price_trend. cvd_trend < - 0.1, 2)]"

definition spec_first_match :: "real \<Rightarrow> real \<Rightarrow> int" where
  "spec_first_match cvd_trend price_trend =
     (case find (\<lambda>rule. fst rule cvd_trend price_trend) spec_divergence_rules of
        Some rule \<Rightarrow> snd rule
      | None \<Rightarrow> 5)"

subsection \<open>Python values, errors and string methods\<close>

text \<open>
  The values the JSON of the market-data client can hold where the code reads them: null,
  a number, a string. Python's exceptions are values of \<open>py_error\<close>; a function that can
  raise returns \<open>py_error + 'a\<close>. \<open>truthy\<close> is Python's truth test of \<^verbatim>\<open>if x:\<close> and
  \<^verbatim>\<open>not x\<close>.
\<close>

datatype pyval = PNone | PNum real | PStr string

datatype py_error = KeyError string | TypeError | AttributeError

fun truthy :: "pyval \<Rightarrow> bool" where
  "truthy PNone = False"
| "truthy (PNum x) = (x \<noteq> 0)"
| "truthy (PStr s) = (s \<noteq> [])"

text \<open>
  \<^verbatim>\<open>str.lower()\<close>, \<^verbatim>\<open>str.upper()\<close> and \<^verbatim>\<open>str.replace(' ', '-')\<close> on ASCII text: the
  letters A..Z and a..z are mapped onto each other and every other character is kept.
  Labels are taken to be ASCII; Python's case mapping of other scripts is not modelled.
\<close>

definition ascii_uppercase :: string where
  "ascii_uppercase = ''ABCDEFGHIJKLMNOPQRSTUVWXYZ''"

definition ascii_lowercase :: string where
  "ascii_lowercase = ''abcdefghijklmnopqrstuvwxyz''"

definition lower_char :: "char \<Rightarrow> char" where
  "lower_char c =
     (case map_of (zip ascii_uppercase ascii_lowercase) c of Some d \<Rightarrow> d | None \<Rightarrow> c)"

definition upper_char :: "char \<Rightarrow> char" where
  "upper_char c =
     (case map_of (zip ascii_lowercase ascii_uppercase) c of Some d \<Rightarrow> d | None \<Rightarrow> c)"

definition lower :: "string \<Rightarrow> string" where
  "lower s = map lower_char s"

definition upper :: "string \<Rightarrow> string" where
  "upper s = map upper_char s"

definition replace_space_hyphen :: "string \<Rightarrow> string" where
  "replace_space_hyphen s = map (\<lambda>c. if c = CHR '' '' then CHR ''-'' else c) s"

subsection \<open>Automated scoring (calculate_sector_strength, calculate_valuation_potential,
  calculate_supply_risk)\<close>

text \<open>
  \<^verbatim>\<open>calculate_sector_strength(coingecko_category)\<close>: the dictionary \<open>hot_sectors\<close>, the
  normalisation \<^verbatim>\<open>coingecko_category.lower().replace(' ', '-')\<close> and the lookup
  \<^verbatim>\<open>hot_sectors.get(category, 4)\<close>. An argument that is not a string has no \<^verbatim>\<open>lower\<close>.
\<close>

definition hot_sectors :: "(string \<times> int) list" where
  "hot_sectors =
     [(''artificial-intelligence'', 9),
      (''ai'', 9),
      (''depin'', 9),
      (''real-world-assets'', 9),
      (''rwa'', 9),
      (''layer-1'', 7),
      (''layer-2'', 7),
      (''gaming'', 7),
      (''gamefi'', 7),
      (''infrastructure'', 7),
      (''blockchain-infrastructure'', 7)]"

definition normalize_category :: "string \<Rightarrow> string" where
  "normalize_category coingecko_category = replace_space_hyphen (lower coingecko_category)"

definition calculate_sector_strength :: "pyval \<Rightarrow> py_error + int" where
  "calculate_sector_strength coingecko_category =
     (case coingecko_category of
        PStr label \<Rightarrow>
          Inr (case map_of hot_sectors (normalize_category label) of
                 Some score \<Rightarrow> score
               | None \<Rightarrow> 4)
      | _ \<Rightarrow> Inl AttributeError)"

text \<open>
  \<^verbatim>\<open>calculate_valuation_potential(market_cap_usd)\<close>: an ascending chain of strict upper
  bounds. The function has no guard of its own: comparing None or a string with a number
  raises TypeError.
\<close>

definition calculate_valuation_potential :: "pyval \<Rightarrow> py_error + int" where
  "calculate_valuation_potential market_cap_usd =
     (case market_cap_usd of
        PNum cap \<Rightarrow>
          Inr (if cap < 20000000 then 10
               else if cap < 50000000 then 9
               else if cap < 100000000 then 8
               else if cap < 200000000 then 7
               else if cap < 500000000 then 5
               else if cap < 1000000000 then 3
               else 1)
      | _ \<Rightarrow> Inl TypeError)"

text \<open>
  \<^verbatim>\<open>calculate_supply_risk(circulating_supply, total_supply)\<close>: the guard
  \<^verbatim>\<open>not total_supply or total_supply <= 0\<close> comes first, so a null or zero total returns 1
  whatever the circulating supply is; then the ratio is scored by inclusive lower bounds.
  Dividing None or a string by a number raises TypeError.
\<close>

definition calculate_supply_risk :: "pyval \<Rightarrow> pyval \<Rightarrow> py_error + int" where
  "calculate_supply_risk circulating_supply total_supply =
     (if \<not> truthy total_supply then Inr 1
      else case total_supply of
        PNum tot \<Rightarrow>
          if tot \<le> 0 then Inr 1
          else (case circulating_supply of
                  PNum circ \<Rightarrow>
                    (let circulation_ratio = circ / tot
                     in Inr (if circulation_ratio \<ge> 0.90 then 10
                             else if circulation_ratio \<ge> 0.75 then 9
                             else if circulation_ratio \<ge> 0.50 then 7
                             else if circulation_ratio \<ge> 0.25 then 5
                             else if circulation_ratio \<ge> 0.10 then 2
                             else 1))
                | _ \<Rightarrow> Inl TypeError)
      | _ \<Rightarrow> Inl TypeError)"

subsection \<open>The ingestion pipeline (process_coingecko_data)\<close>

text \<open>
  The market data of one coin is a dictionary from keys to values; \<^verbatim>\<open>market_data[k]\<close>
  raises KeyError on a missing key and \<^verbatim>\<open>market_data.get(k, d)\<close> returns \<open>d\<close> there. The
  project the function builds has the fields below. The three pillar sub-scores without a
  data source are the constant 5, the two pillar scores are plain means, and the data
  score, the Omega score and the flag \<open>has_data_score\<close> are left empty.
\<close>

definition subscript :: "(string \<rightharpoonup> pyval) \<Rightarrow> string \<Rightarrow> py_error + pyval" where
  "subscript d k = (case d k of None \<Rightarrow> Inl (KeyError k) | Some v \<Rightarrow> Inr v)"

definition get_default :: "(string \<rightharpoonup> pyval) \<Rightarrow> string \<Rightarrow> pyval \<Rightarrow> pyval" where
  "get_default d k dflt = (case d k of None \<Rightarrow> dflt | Some v \<Rightarrow> v)"

text \<open>
  Statements that can raise are run in sequence: \<open>then_do\<close> passes the value of the first
  on to the rest and stops at the first exception. \<open>py_upper\<close> and \<open>py_lower\<close> are the
  method calls \<^verbatim>\<open>x.upper()\<close> and \<^verbatim>\<open>x.lower()\<close> on a value that need not be a string.
\<close>

definition then_do :: "py_error + 'a \<Rightarrow> ('a \<Rightarrow> py_error + 'b) \<Rightarrow> py_error + 'b" where
  "then_do r f = (case r of Inl e \<Rightarrow> Inl e | Inr v \<Rightarrow> f v)"

definition py_upper :: "pyval \<Rightarrow> py_error + string" where
  "py_upper v = (case v of PStr s \<Rightarrow> Inr (upper s) | _ \<Rightarrow> Inl AttributeError)"

definition py_lower :: "pyval \<Rightarrow> py_error + string" where
  "py_lower v = (case v of PStr s \<Rightarrow> Inr (lower s) | _ \<Rightarrow> Inl AttributeError)"

record project =
  coingecko_id :: pyval
  name :: pyval
  ticker :: string
  data_source :: string
  created_via :: string
  market_cap :: pyval
  circulating_supply :: pyval
  total_supply :: pyval
  sector_strength :: int
  backing_team :: int
  value_proposition :: int
  valuation_potential :: int
  token_utility :: int
  supply_risk :: int
  narrative_score :: real
  tokenomics_score :: real
  data_score :: "real option"
  omega_score :: "real option"
  has_data_score :: bool

definition process_coingecko_data :: "(string \<rightharpoonup> pyval) \<Rightarrow> py_error + project" where
  "process_coingecko_data market_data =
     then_do (subscript market_data ''id'') (\<lambda>v_id.
     then_do (subscript market_data ''name'') (\<lambda>v_name.
     then_do (subscript market_data ''symbol'') (\<lambda>v_symbol.
     then_do (py_upper v_symbol) (\<lambda>v_ticker.
     (let v_market_cap = get_default market_data ''market_cap'' PNone;
          v_circulating = get_default market_data ''circulating_supply'' PNone;
          v_total = get_default market_data ''total_supply'' PNone
      in
     then_do (py_lower (get_default market_data ''category'' (PStr []))) (\<lambda>category.
     then_do (calculate_sector_strength (PStr category)) (\<lambda>v_sector.
     then_do (if truthy v_market_cap
              then calculate_valuation_potential v_market_cap
              else Inr 1) (\<lambda>v_valuation.
     then_do (if truthy v_circulating \<and> truthy v_total
              then calculate_supply_risk v_circulating v_total
              else Inr 1) (\<lambda>v_supply.
     Inr \<lparr> coingecko_id = v_id,
           name = v_name,
           ticker = v_ticker,
           data_source = ''automated'',
           created_via = ''api_ingestion'',
           market_cap = v_market_cap,
           circulating_supply = v_circulating,
           total_supply = v_total,
           sector_strength = v_sector,
           backing_team = 5,
           value_proposition = 5,
           valuation_potential = v_valuation,
           token_utility = 5,
           supply_risk = v_supply,
           narrative_score = (of_int v_sector + 5 + 5) / 3,
           tokenomics_score = (of_int v_valuation + 5 + of_int v_supply) / 3,
           data_score = None,
           omega_score = None,
           has_data_score = False \<rparr>)))))))))"

text \<open>
  A market-data dictionary with the three keys the function subscripts and the four it
  reads with \<^verbatim>\<open>get\<close>, used for the examples.
\<close>

definition sample_market_data :: "pyval \<Rightarrow> pyval \<Rightarrow> pyval \<Rightarrow> pyval \<Rightarrow> (string \<rightharpoonup> pyval)" where
  "sample_market_data v_category v_cap v_circulating v_total =
     [''id'' \<mapsto> PStr ''sample-coin'',
      ''name'' \<mapsto> PStr ''Sample Coin'',
      ''symbol'' \<mapsto> PStr ''smp'',
      ''category'' \<mapsto> v_category,
      ''market_cap'' \<mapsto> v_cap,
      ''circulating_supply'' \<mapsto> v_circulating,
      ''total_supply'' \<mapsto> v_total]"

text \<open>
  The two threshold tables of the specification, written from its words. A market cap is
  scored by the first bound it is strictly below, in ascending order, and 1 when it is below
  none; a null market cap is scored 1. A circulation ratio is scored by the first bound it
  reaches, in descending order, and 1 when it reaches none.
\<close>

definition spec_valuation_buckets :: "(real \<times> int) list" where
  "spec_valuation_buckets =
     [(20000000, 10), (50000000, 9), (100000000, 8), (200000000, 7), (500000000, 5),
      (1000000000, 3)]"

definition spec_valuation_potential :: "real option \<Rightarrow> int" where
  "spec_valuation_potential cap =
     (case cap of
        None \<Rightarrow> 1
      | Some c \<Rightarrow>
          (case find (\<lambda>bucket. c < fst bucket) spec_valuation_buckets of
             Some bucket \<Rightarrow> snd bucket
           | None \<Rightarrow> 1))"

definition spec_ratio_bands :: "(real \<times> int) list" where
  "spec_ratio_bands = [(0.90, 10), (0.75, 9), (0.50, 7), (0.25, 5), (0.10, 2)]"

definition spec_ratio_score :: "real \<Rightarrow> int" where
  "spec_ratio_score ratio =
     (case find (\<lambda>band. ratio \<ge> fst band) spec_ratio_bands of
        Some band \<Rightarrow> snd band
      | None \<Rightarrow> 1)"

subsection \<open>The project card (renderAutomatedProjectCard, getScoreClass)\<close>

text \<open>
  The card is rendered from the project as the API returns it, with the fields of the
  record above. \<^verbatim>\<open>getScoreClass(score)\<close> compares the score with three bounds; a null
  score is 0 in a JavaScript comparison. \<open>omegaScoreDisplay\<close> is the object of that name
  that the card shows in its score box: a text, or the stored Omega score.
\<close>

definition getScoreClass :: "real option \<Rightarrow> string" where
  "getScoreClass score =
     (let s = (case score of None \<Rightarrow> 0 | Some x \<Rightarrow> x)
      in if s \<ge> 8.5 then ''score-excellent''
         else if s \<ge> 7.0 then ''score-good''
         else if s \<ge> 5.5 then ''score-average''
         else ''score-poor'')"

datatype shown = Text string | Number "real option"

record score_display =
  value_shown :: shown
  label :: string
  class_name :: string

definition isAwaitingData :: "project \<Rightarrow> bool" where
  "isAwaitingData p = (\<not> has_data_score p)"

definition omegaScoreDisplay :: "project \<Rightarrow> score_display" where
  "omegaScoreDisplay p =
     (if isAwaitingData p
      then \<lparr> value_shown = Text ''N/A'', label = ''Awaiting Data'', class_name = ''awaiting'' \<rparr>
      else \<lparr> value_shown = Number (omega_score p), label = ''Omega Score'',
             class_name = getScoreClass (omega_score p) \<rparr>)"

subsection \<open>The wizard's score (calculateOmegaScore)\<close>

text \<open>
  The wizard hands over the form's fields as JavaScript values. A JavaScript number is
  \<open>real option\<close>, with \<open>None\<close> for NaN, which every arithmetic operation passes on.
  \<^verbatim>\<open>parseFloat\<close> keeps a number, reads a string by its numeric prefix (the reading of
  strings is the parameter \<open>prefix\<close>) and gives NaN for undefined and null.
  \<^verbatim>\<open>x.toFixed(2)\<close> writes the decimal with two fraction digits nearest to \<open>x\<close>, the larger
  one on a tie, the sign apart; from \<open>10^21\<close> on it writes the number itself.
  \<^verbatim>\<open>parseFloat(x.toFixed(2))\<close> reads that decimal back.
\<close>

datatype jsval = JUndefined | JNull | JNum real | JStr string

definition parseFloat :: "(string \<Rightarrow> real option) \<Rightarrow> jsval \<Rightarrow> real option" where
  "parseFloat prefix v =
     (case v of JNum x \<Rightarrow> Some x | JStr s \<Rightarrow> prefix s | _ \<Rightarrow> None)"

definition toFixed2 :: "real \<Rightarrow> real" where
  "toFixed2 x =
     (if \<bar>x\<bar> \<ge> 10 ^ 21 then x
      else if x < 0 then - (of_int \<lfloor>- x * 100 + 1 / 2\<rfloor> / 100)
      else of_int \<lfloor>x * 100 + 1 / 2\<rfloor> / 100)"

definition js_add :: "real option \<Rightarrow> real option \<Rightarrow> real option" where
  "js_add a b = (case a of None \<Rightarrow> None | Some x \<Rightarrow> map_option (\<lambda>y. x + y) b)"

definition js_mul :: "real option \<Rightarrow> real \<Rightarrow> real option" where
  "js_mul a k = map_option (\<lambda>x. x * k) a"

definition js_div :: "real option \<Rightarrow> real \<Rightarrow> real option" where
  "js_div a k = map_option (\<lambda>x. x / k) a"

record project_data =
  sector_strength :: jsval
  value_proposition :: jsval
  backing_team :: jsval
  valuation_potential :: jsval
  token_utility :: jsval
  supply_risk :: jsval
  accumulation_signal :: jsval

record scores =
  narrative_score :: "real option"
  tokenomics_score :: "real option"
  data_score :: "real option"
  omega_score :: "real option"

definition calculateOmegaScore :: "(string \<Rightarrow> real option) \<Rightarrow> project_data \<Rightarrow> scores" where
  "calculateOmegaScore prefix p =
     (let narrativeScore =
            js_div (js_add (js_add (parseFloat prefix (project_data.sector_strength p))
                                   (parseFloat prefix (project_data.value_proposition p)))
                           (parseFloat prefix (project_data.backing_team p))) 3;
          tokenomicsScore =
            js_div (js_add (js_add (parseFloat prefix (project_data.valuation_potential p))
                                   (parseFloat prefix (project_data.token_utility p)))
                           (parseFloat prefix (project_data.supply_risk p))) 3;
          dataScore = parseFloat prefix (accumulation_signal p);
          omegaScore = js_add (js_add (js_mul narrativeScore 0.25) (js_mul tokenomicsScore 0.25))
                              (js_mul dataScore 0.50)
      in \<lparr> narrative_score = map_option toFixed2 narrativeScore,
           tokenomics_score = map_option toFixed2 tokenomicsScore,
           data_score = dataScore,
           omega_score = map_option toFixed2 omegaScore \<rparr>)"

text \<open>
  A reading of strings of decimal digits, as \<^verbatim>\<open>parseFloat\<close> reads them, and the project of
  the acceptance scenario for the examples.
\<close>

definition digit_value :: "char \<Rightarrow> nat option" where
  "digit_value c = map_of (zip ''0123456789'' [0, 1, 2, 3, 4, 5, 6, 7, 8, 9]) c"

fun digits_value :: "nat \<Rightarrow> string \<Rightarrow> nat option" where
  "digits_value acc [] = Some acc"
| "digits_value acc (c # cs) =
     (case digit_value c of None \<Rightarrow> None | Some d \<Rightarrow> digits_value (10 * acc + d) cs)"

definition parse_digits :: "string \<Rightarrow> real option" where
  "parse_digits s = (if s = [] then None else map_option real (digits_value 0 s))"

definition acceptance_project :: project_data where
  "acceptance_project =
     \<lparr> sector_strength = JStr ''9'', value_proposition = JStr ''7'', backing_team = JStr ''8'',
       valuation_potential = JStr ''10'', token_utility = JStr ''9'', supply_risk = JStr ''7'',
       accumulation_signal = JStr ''8'' \<rparr>"

subsection \<open>CSV ingestion (parse_and_validate_csv)\<close>

text \<open>
  A pandas data frame is its list of column names and its rows in order; a row gives the
  cell under each column name, and it is read only under a name that has been checked to
  be a column. A cell is a number, a text, or NaN (an empty cell). \<^verbatim>\<open>pd.read_csv\<close> and the
  reading of a text as a number by \<^verbatim>\<open>pd.to_numeric\<close> belong to pandas and are the
  parameters \<open>read_csv\<close> (the frame, or the message of the exception it raised) and
  \<open>coerce\<close>.

  The function returns the pair \<^verbatim>\<open>(dataframe, error_message)\<close>, one of the two being None.
  The four messages are the constructors of \<open>csv_error\<close>, with the values the message is
  formatted from: "Missing required columns: ...", "Insufficient data: N periods found,
  minimum 90 required", "Invalid numeric data in price or volume delta columns" and
  "CSV parsing error: ...".
\<close>

datatype cell = Num real | Str string | NaN

record dataframe =
  columns :: "string list"
  rows :: "(string \<Rightarrow> cell) list"

datatype csv_error =
    MissingHeaders "string list"
  | InsufficientPeriods nat nat
  | InvalidNumericData
  | ParsingError string

definition column :: "dataframe \<Rightarrow> string \<Rightarrow> cell list" where
  "column df h = map (\<lambda>r. r h) (rows df)"

definition assign :: "dataframe \<Rightarrow> string \<Rightarrow> cell list \<Rightarrow> dataframe" where
  "assign df h cells = df\<lparr>rows := map (\<lambda>(r, c). r(h := c)) (zip (rows df) cells)\<rparr>"

definition to_numeric :: "(string \<Rightarrow> real option) \<Rightarrow> cell \<Rightarrow> cell" where
  "to_numeric coerce c =
     (case c of
        Num x \<Rightarrow> Num x
      | Str s \<Rightarrow> (case coerce s of Some x \<Rightarrow> Num x | None \<Rightarrow> NaN)
      | NaN \<Rightarrow> NaN)"

definition isna :: "cell \<Rightarrow> bool" where
  "isna c = (c = NaN)"

definition required_headers :: "string list" where
  "required_headers = [''time'', ''close'', ''Volume Delta (Close)'']"

definition parse_and_validate_csv ::
  "(string \<Rightarrow> string + dataframe) \<Rightarrow> (string \<Rightarrow> real option) \<Rightarrow> string \<Rightarrow>
     dataframe option \<times> csv_error option" where
  "parse_and_validate_csv read_csv coerce csv_text =
     (case read_csv csv_text of
        Inl e \<Rightarrow> (None, Some (ParsingError e))
      | Inr df \<Rightarrow>
          (let missing_headers = filter (\<lambda>h. h \<notin> set (columns df)) required_headers
           in if missing_headers \<noteq> [] then (None, Some (MissingHeaders missing_headers))
              else if length (rows df) < 90
                then (None, Some (InsufficientPeriods (length (rows df)) 90))
              else
                (let df1 = assign df ''close'' (map (to_numeric coerce) (column df ''close''));
                     df2 = assign df1 ''Volume Delta (Close)''
                             (map (to_numeric coerce) (column df1 ''Volume Delta (Close)''))
                 in if list_ex isna (column df2 ''close'') \<or>
                       list_ex isna (column df2 ''Volume Delta (Close)'')
                    then (None, Some InvalidNumericData)
                    else (Some df2, None))))"

subsection \<open>Trend analysis (calculate_accumulation_signal)\<close>

text \<open>
  \<^verbatim>\<open>df.tail(90)\<close> keeps the last 90 rows (all of them when there are fewer),
  \<^verbatim>\<open>np.arange(n)\<close> is 0, 1, .., n - 1, and \<^verbatim>\<open>cumsum\<close> adds from the left, starting with
  the first value itself. \<^verbatim>\<open>stats.linregress\<close> belongs to SciPy and is the parameter
  \<open>linregress\<close>, giving (slope, intercept, r). The function is modelled on frames whose
  close and volume-delta cells are numbers, which are the frames parse_and_validate_csv
  returns; on any other frame the model stops with \<open>None\<close>.
\<close>

definition tail :: "nat \<Rightarrow> dataframe \<Rightarrow> dataframe" where
  "tail n df = df\<lparr>rows := drop (length (rows df) - n) (rows df)\<rparr>"

definition arange :: "nat \<Rightarrow> real list" where
  "arange n = map real [0..<n]"

fun cumsum_from :: "real \<Rightarrow> real list \<Rightarrow> real list" where
  "cumsum_from acc [] = []"
| "cumsum_from acc (x # xs) = (acc + x) # cumsum_from (acc + x) xs"

fun cumsum :: "real list \<Rightarrow> real list" where
  "cumsum [] = []"
| "cumsum (x # xs) = x # cumsum_from x xs"

fun is_number :: "cell \<Rightarrow> bool" where
  "is_number (Num x) = True"
| "is_number _ = False"

fun num_value :: "cell \<Rightarrow> real" where
  "num_value (Num x) = x"
| "num_value _ = 0"

definition numeric_column :: "dataframe \<Rightarrow> string \<Rightarrow> real list option" where
  "numeric_column df h =
     (if h \<in> set (columns df) \<and> list_all is_number (column df h)
      then Some (map num_value (column df h))
      else None)"

record metadata =
  price_slope :: real
  cvd_slope :: real
  price_correlation :: real
  cvd_correlation :: real
  periods_analyzed :: nat
  divergence_type :: string

definition calculate_accumulation_signal ::
  "(real list \<Rightarrow> real list \<Rightarrow> real \<times> real \<times> real) \<Rightarrow> dataframe \<Rightarrow> (int \<times> metadata) option" where
  "calculate_accumulation_signal linregress df =
     (let analysis_data = tail 90 df
      in case numeric_column analysis_data ''close'' of
           None \<Rightarrow> None
         | Some closes \<Rightarrow>
             (case numeric_column analysis_data ''Volume Delta (Close)'' of
                None \<Rightarrow> None
              | Some deltas \<Rightarrow>
                  (let x_values = arange (length (rows analysis_data));
                       (p_slope, p_intercept, p_r) = linregress x_values closes;
                       cvd = cumsum deltas;
                       (c_slope, c_intercept, c_r) = linregress x_values cvd;
                       score = calculate_divergence_score p_slope c_slope p_r c_r
                   in Some (score,
                        \<lparr> price_slope = p_slope,
                          cvd_slope = c_slope,
                          price_correlation = p_r,
                          cvd_correlation = c_r,
                          periods_analyzed = length (rows analysis_data),
                          divergence_type = classify_divergence p_slope c_slope \<rparr>))))"

text \<open>
  Frames for the examples: \<open>sample_row\<close> is a row of the three required columns, and
  \<open>sample_frame\<close> a frame of these columns with the given rows.
\<close>

definition sample_row :: "cell \<Rightarrow> cell \<Rightarrow> cell \<Rightarrow> string \<Rightarrow> cell" where
  "sample_row t c v =
     (\<lambda>h. if h = ''time'' then t
          else if h = ''close'' then c
          else if h = ''Volume Delta (Close)'' then v
          else NaN)"

definition sample_frame :: "(string \<Rightarrow> cell) list \<Rightarrow> dataframe" where
  "sample_frame rs = \<lparr> columns = [''time'', ''close'', ''Volume Delta (Close)''], rows = rs \<rparr>"

text \<open>
  Names for what the validation computes: a cell is \<open>non_numeric\<close> when
  \<^verbatim>\<open>pd.to_numeric(.., errors='coerce')\<close> turns it into NaN, \<open>coerced\<close> is the frame after the
  two column assignments (the frame the function returns), and a frame is \<open>validated\<close>
  when it has the three required columns and numbers in the close and volume-delta columns.
\<close>

definition non_numeric :: "(string \<Rightarrow> real option) \<Rightarrow> cell \<Rightarrow> bool" where
  "non_numeric coerce c = isna (to_numeric coerce c)"

definition coerced :: "(string \<Rightarrow> real option) \<Rightarrow> dataframe \<Rightarrow> dataframe" where
  "coerced coerce df =
     assign (assign df ''close'' (map (to_numeric coerce) (column df ''close'')))
       ''Volume Delta (Close)'' (map (to_numeric coerce) (column df ''Volume Delta (Close)''))"

definition validated :: "dataframe \<Rightarrow> bool" where
  "validated df \<longleftrightarrow>
     set required_headers \<subseteq> set (columns df) \<and>
     list_all is_number (column df ''close'') \<and>
     list_all is_number (column df ''Volume Delta (Close)'')"

text \<open>
  For the examples: \<open>read_as df\<close> is a reader that parses every text to the frame \<open>df\<close>,
  \<open>sample_series\<close> is a frame of 91 rows, and \<open>least_squares\<close> is the least-squares fit
  of \<^verbatim>\<open>stats.linregress\<close> (slope, intercept and correlation, the correlation being 0 when
  either series is constant).
\<close>

definition read_as :: "dataframe \<Rightarrow> string \<Rightarrow> string + dataframe" where
  "read_as df csv_text = Inr df"

definition sample_series :: dataframe where
  "sample_series =
     sample_frame (sample_row (Str ''day 0'') (Num 7) (Num 3) #
                   replicate 90 (sample_row (Str ''day'') (Num 100) (Num 1)))"

definition mean :: "real list \<Rightarrow> real" where
  "mean xs = sum_list xs / real (length xs)"

definition least_squares :: "real list \<Rightarrow> real list \<Rightarrow> real \<times> real \<times> real" where
  "least_squares xs ys =
     (let xmean = mean xs;
          ymean = mean ys;
          ssxm = mean (map (\<lambda>x. (x - xmean) * (x - xmean)) xs);
          ssym = mean (map (\<lambda>y. (y - ymean) * (y - ymean)) ys);
          ssxym = mean (map (\<lambda>(x, y). (x - xmean) * (y - ymean)) (zip xs ys));
          r = (if ssxm = 0 \<or> ssym = 0 then 0 else ssxym / sqrt (ssxm * ssym));
          slope = ssxym / ssxm
      in (slope, ymean - slope * xmean, r))"

subsection \<open>Score assembly (the transition to Complete)\<close>

text \<open>
  Modelled from the spec: the availability state of an asset. The sources hold no field of
  that name; the state is read from the flag \<open>has_data_score\<close>, as the card reads
  \<open>isAwaitingData\<close> from it: AwaitingData while the flag is false, Complete once it is true.
\<close>

datatype availability = AwaitingData | Complete

definition availability_state :: "project \<Rightarrow> availability" where
  "availability_state p = (if has_data_score p then Complete else AwaitingData)"

text \<open>
  Modelled from the spec: the analysis of one pasted series. The server handler that the
  application posts a series to is missing from the sources; by the specification the
  series goes through ingestion, trend analysis and divergence classification, and the
  outcome is a rejection or the data signal. The three steps are the functions above.
\<close>

definition analyze_series ::
  "(real list \<Rightarrow> real list \<Rightarrow> real \<times> real \<times> real) \<Rightarrow> (string \<Rightarrow> string + dataframe) \<Rightarrow>
     (string \<Rightarrow> real option) \<Rightarrow> string \<Rightarrow> int option" where
  "analyze_series linregress read_csv coerce csv_text =
     (case parse_and_validate_csv read_csv coerce csv_text of
        (Some df, _) \<Rightarrow> map_option fst (calculate_accumulation_signal linregress df)
      | (None, _) \<Rightarrow> None)"

text \<open>
  Modelled from the spec: the score assembler's transition, whose code is missing from the
  sources. When the analysis of a submitted series succeeds, data_score is set to the data
  signal, omega_score to narrative_score * 0.25 + tokenomics_score * 0.25 +
  data_score * 0.50, and the asset is Complete; on an asset that is already Complete the
  two scores are recomputed in place. When the series is rejected, the state and the scores
  of the asset are left untouched.
\<close>

definition submit_series ::
  "(real list \<Rightarrow> real list \<Rightarrow> real \<times> real \<times> real) \<Rightarrow> (string \<Rightarrow> string + dataframe) \<Rightarrow>
     (string \<Rightarrow> real option) \<Rightarrow> string \<Rightarrow> project \<Rightarrow> project" where
  "submit_series linregress read_csv coerce csv_text p =
     (case analyze_series linregress read_csv coerce csv_text of
        None \<Rightarrow> p
      | Some data_signal \<Rightarrow>
          p\<lparr>project.data_score := Some (of_int data_signal),
            project.omega_score :=
              Some (project.narrative_score p * 0.25 + project.tokenomics_score p * 0.25 +
                    of_int data_signal * 0.50),
            has_data_score := True\<rparr>)"

text \<open>
  Modelled from the spec: the life of an automated asset after its ingestion is a sequence
  of series submissions, each handled by the transition above.
\<close>

fun submit_all ::
  "(real list \<Rightarrow> real list \<Rightarrow> real \<times> real \<times> real) \<Rightarrow> (string \<Rightarrow> string + dataframe) \<Rightarrow>
     (string \<Rightarrow> real option) \<Rightarrow> string list \<Rightarrow> project \<Rightarrow> project" where
  "submit_all linregress read_csv coerce [] p = p"
| "submit_all linregress read_csv coerce (csv_text # texts) p =
     submit_all linregress read_csv coerce texts
       (submit_series linregress read_csv coerce csv_text p)"

section \<open>Properties\<close>

text \<open>
  C1. For every pair of fit results (p_slope, p_r) and (c_slope, c_r), with
  price_trend = p_slope * |p_r| and cvd_trend = c_slope * |c_r|, the score of
  calculate_divergence_score is the score of the first rule of the specification's table
  that matches, in the table's order, and 5 when no rule matches.
\<close>

theorem divergence_score_first_match:
  "calculate_divergence_score p_slope c_slope p_r c_r =
     spec_first_match (c_slope * \<bar>c_r\<bar>) (p_slope * \<bar>p_r\<bar>)"
  by (simp add: calculate_divergence_score_def spec_first_match_def
      spec_divergence_rules_def Let_def)

lemma trend_pos: "0 < a * \<bar>b\<bar> \<Longrightarrow> (0::real) < a"
  by (simp add: zero_less_mult_iff)

lemma trend_neg: "a * \<bar>b\<bar> < 0 \<Longrightarrow> a < (0::real)"
  by (simp add: mult_less_0_iff)

text \<open>
  C2 as stated: the label agrees with the table of the specification, so that score 10
  comes with bullish_divergence. It fails for a price rising slowly on a perfect line
  (slope 0.01, r = 1) under a strongly rising cvd (slope 1, r = 1):
  the price trend 0.01 is below the weak threshold, the score is 10, and the label, read
  from the signs of the slopes, is confluence_bullish.
\<close>

theorem label_table_counterexample:
  "calculate_divergence_score (1 / 100) 1 1 1 = 10 \<and>
   classify_divergence (1 / 100) 1 \<noteq> ''bullish_divergence''"
  by (simp add: calculate_divergence_score_def classify_divergence_def Let_def)

text \<open>
  C2, amended. The label is classify_divergence of the two raw slopes, and it agrees with
  the score as far as the signs of the slopes are fixed by the score: score 9 comes with
  bullish_divergence, scores 7 and 6 with confluence_bullish, score 3 with
  bearish_divergence; score 10 comes with bullish_divergence when p_slope <= 0 and with
  confluence_bullish when p_slope > 0; score 2 comes with bearish_divergence when
  p_slope >= 0 and with confluence_bearish when p_slope < 0. Score 5 fixes no label.
\<close>

theorem label_follows_slope_signs:
  "(calculate_divergence_score p_slope c_slope p_r c_r = 9 \<longrightarrow>
      classify_divergence p_slope c_slope = ''bullish_divergence'') \<and>
   (calculate_divergence_score p_slope c_slope p_r c_r = 7 \<or>
    calculate_divergence_score p_slope c_slope p_r c_r = 6 \<longrightarrow>
      classify_divergence p_slope c_slope = ''confluence_bullish'') \<and>
   (calculate_divergence_score p_slope c_slope p_r c_r = 3 \<longrightarrow>
      classify_divergence p_slope c_slope = ''bearish_divergence'') \<and>
   (calculate_divergence_score p_slope c_slope p_r c_r = 10 \<longrightarrow>
      classify_divergence p_slope c_slope =
        (if p_slope \<le> 0 then ''bullish_divergence'' else ''confluence_bullish'')) \<and>
   (calculate_divergence_score p_slope c_slope p_r c_r = 2 \<longrightarrow>
      classify_divergence p_slope c_slope =
        (if p_slope \<ge> 0 then ''bearish_divergence'' else ''confluence_bearish''))"
proof -
  define pt where "pt = p_slope * \<bar>p_r\<bar>"
  define ct where "ct = c_slope * \<bar>c_r\<bar>"
  have score: "calculate_divergence_score p_slope c_slope p_r c_r =
     (if ct > 0.1 \<and> pt < 0.02 then 10
      else if ct > 0.02 \<and> pt < - 0.02 then 9
      else if ct > 0.1 \<and> pt > 0.02 then 7
      else if ct > 0.02 \<and> pt > 0.02 then 6
      else if ct < - 0.02 \<and> pt > 0.1 then 3
      else if ct < - 0.1 then 2
      else 5)"
    unfolding calculate_divergence_score_def Let_def pt_def ct_def by (rule refl)
  have cvd_up: "0 < ct \<Longrightarrow> 0 < c_slope" and cvd_down: "ct < 0 \<Longrightarrow> c_slope < 0"
    and price_up: "0 < pt \<Longrightarrow> 0 < p_slope" and price_down: "pt < 0 \<Longrightarrow> p_slope < 0"
    unfolding pt_def ct_def by (auto dest: trend_pos trend_neg)
  show ?thesis
    unfolding score classify_divergence_def using cvd_up cvd_down price_up price_down
    by (auto split: if_splits)
qed

theorem label_follows_slope_signs_witness:
  "(calculate_divergence_score (- 1) (1 / 20) 1 1 = 9 \<and>
      classify_divergence (- 1) (1 / 20) = ''bullish_divergence'') \<and>
   (calculate_divergence_score 1 1 1 1 = 7 \<and>
      classify_divergence 1 1 = ''confluence_bullish'') \<and>
   (calculate_divergence_score 1 (- 1) 1 1 = 3 \<and>
      classify_divergence 1 (- 1) = ''bearish_divergence'') \<and>
   (calculate_divergence_score (1 / 100) 1 1 1 = 10 \<and>
      classify_divergence (1 / 100) 1 = ''confluence_bullish'') \<and>
   (calculate_divergence_score (- 1) (- 1) 1 1 = 2 \<and>
      classify_divergence (- 1) (- 1) = ''confluence_bearish'')"
  using label_follows_slope_signs [of "- 1" "1 / 20" 1 1]
    label_follows_slope_signs [of 1 1 1 1]
    label_follows_slope_signs [of 1 "- 1" 1 1]
    label_follows_slope_signs [of "1 / 100" 1 1 1]
    label_follows_slope_signs [of "- 1" "- 1" 1 1]
  by (simp add: calculate_divergence_score_def Let_def)

subsection \<open>Sector strength\<close>

lemmas string_method_defs = normalize_category_def lower_def upper_def lower_char_def
  upper_char_def ascii_uppercase_def ascii_lowercase_def replace_space_hyphen_def

text \<open>
  C6 as stated: L1 maps to 7 and every label outside the seven named ones maps to 4. In
  the table the layer-one and layer-two sectors are keyed as layer-1 and layer-2, and the
  sectors have further keys, so L1 is scored 4 and gaming is scored 7.
\<close>

theorem sector_label_counterexample:
  "calculate_sector_strength (PStr ''L1'') = Inr 4 \<and>
   calculate_sector_strength (PStr ''gaming'') = Inr 7"
  by (simp add: calculate_sector_strength_def string_method_defs hot_sectors_def)

text \<open>
  C6, amended. calculate_sector_strength returns a score, without error, for every label,
  the empty one included. With the label lower-cased and its spaces replaced by hyphens,
  the labels artificial-intelligence, ai, depin, real-world-assets and rwa map to 9, the
  labels layer-1, layer-2, gaming, gamefi, infrastructure and blockchain-infrastructure map
  to 7, and every label that is none of these eleven, nor l1 or l2, maps to 4.
\<close>

theorem sector_strength_total_table:
  "(\<exists>score. calculate_sector_strength (PStr category_label) = Inr score) \<and>
   (normalize_category category_label \<in>
      {''artificial-intelligence'', ''ai'', ''depin'', ''real-world-assets'', ''rwa''}
      \<longrightarrow> calculate_sector_strength (PStr category_label) = Inr 9) \<and>
   (normalize_category category_label \<in>
      {''layer-1'', ''layer-2'', ''gaming'', ''gamefi'', ''infrastructure'',
       ''blockchain-infrastructure''}
      \<longrightarrow> calculate_sector_strength (PStr category_label) = Inr 7) \<and>
   (normalize_category category_label \<notin>
      {''artificial-intelligence'', ''ai'', ''depin'', ''real-world-assets'', ''rwa'',
       ''layer-1'', ''layer-2'', ''gaming'', ''gamefi'', ''infrastructure'',
       ''blockchain-infrastructure'', ''l1'', ''l2''}
      \<longrightarrow> calculate_sector_strength (PStr category_label) = Inr 4)"
  unfolding calculate_sector_strength_def hot_sectors_def
  by auto

theorem sector_strength_total_table_witness:
  "calculate_sector_strength (PStr ''DePIN'') = Inr 9 \<and>
   calculate_sector_strength (PStr ''AI'') = Inr 9 \<and>
   calculate_sector_strength (PStr ''Real World Assets'') = Inr 9 \<and>
   calculate_sector_strength (PStr ''GameFi'') = Inr 7 \<and>
   calculate_sector_strength (PStr ''Infrastructure'') = Inr 7 \<and>
   calculate_sector_strength (PStr ''Meme'') = Inr 4 \<and>
   calculate_sector_strength (PStr []) = Inr 4"
  using sector_strength_total_table [of "''DePIN''"]
    sector_strength_total_table [of "''AI''"]
    sector_strength_total_table [of "''Real World Assets''"]
    sector_strength_total_table [of "''GameFi''"]
    sector_strength_total_table [of "''Infrastructure''"]
    sector_strength_total_table [of "''Meme''"]
    sector_strength_total_table [of "[]"]
  by (simp add: string_method_defs)

subsection \<open>The ingestion pipeline\<close>

lemmas pipeline_defs = process_coingecko_data_def then_do_def subscript_def get_default_def
  py_upper_def py_lower_def

lemmas sample_defs = sample_market_data_def calculate_sector_strength_def hot_sectors_def
  calculate_valuation_potential_def calculate_supply_risk_def

lemma then_do_Inr: "then_do r f = Inr y \<longleftrightarrow> (\<exists>v. r = Inr v \<and> f v = Inr y)"
  by (cases r) (simp_all add: then_do_def)

text \<open>A run of the pipeline that returns a project has passed every step, and the project is
  the record built from the values of the steps.\<close>

lemma process_coingecko_data_Inr:
  assumes "process_coingecko_data md = Inr p"
  shows "\<exists>v_id v_name v_ticker category v_sector v_valuation v_supply.
     (if truthy (get_default md ''market_cap'' PNone)
      then calculate_valuation_potential (get_default md ''market_cap'' PNone)
      else Inr 1) = Inr v_valuation \<and>
     (if truthy (get_default md ''circulating_supply'' PNone) \<and>
         truthy (get_default md ''total_supply'' PNone)
      then calculate_supply_risk (get_default md ''circulating_supply'' PNone)
             (get_default md ''total_supply'' PNone)
      else Inr 1) = Inr v_supply \<and>
     p = \<lparr> coingecko_id = v_id,
           name = v_name,
           ticker = v_ticker,
           data_source = ''automated'',
           created_via = ''api_ingestion'',
           market_cap = get_default md ''market_cap'' PNone,
           circulating_supply = get_default md ''circulating_supply'' PNone,
           total_supply = get_default md ''total_supply'' PNone,
           sector_strength = v_sector,
           backing_team = 5,
           value_proposition = 5,
           valuation_potential = v_valuation,
           token_utility = 5,
           supply_risk = v_supply,
           narrative_score = (of_int v_sector + 5 + 5) / 3,
           tokenomics_score = (of_int v_valuation + 5 + of_int v_supply) / 3,
           data_score = None,
           omega_score = None,
           has_data_score = False \<rparr>"
  using assms unfolding process_coingecko_data_def Let_def then_do_Inr
  by blast

lemma sample_run_zero_cap:
  "\<exists>p. process_coingecko_data
          (sample_market_data (PStr ''ai'') (PNum 0) (PNum 95) (PNum 100)) = Inr p"
  by (simp add: pipeline_defs sample_defs string_method_defs Let_def)

lemma sample_run:
  "\<exists>p. process_coingecko_data
          (sample_market_data (PStr ''ai'') (PNum 30000000) (PNum 95) (PNum 100)) = Inr p"
  by (simp add: pipeline_defs sample_defs string_method_defs Let_def)

subsection \<open>Valuation potential\<close>

lemma valuation_chain:
  "calculate_valuation_potential (PNum c) = Inr (spec_valuation_potential (Some c))"
  by (simp add: calculate_valuation_potential_def spec_valuation_potential_def
      spec_valuation_buckets_def)

lemma valuation_raises:
  "calculate_valuation_potential PNone = Inl TypeError"
  "calculate_valuation_potential (PStr s) = Inl TypeError"
  by (simp_all add: calculate_valuation_potential_def)

text \<open>
  C7 as stated: a market cap that is not null is scored by the first threshold it is
  below, so a market cap of 0 is scored 10. The pipeline, which holds the guard for the
  null market cap, scores a market cap of 0 as 1.
\<close>

theorem valuation_zero_cap_counterexample:
  "map_sum id project.valuation_potential
     (process_coingecko_data
        (sample_market_data (PStr ''ai'') (PNum 0) (PNum 95) (PNum 100))) = Inr 1 \<and>
   spec_valuation_potential (Some 0) = 10"
  by (simp add: pipeline_defs sample_defs string_method_defs Let_def
      spec_valuation_potential_def spec_valuation_buckets_def)

text \<open>
  C7, amended. The valuation_potential of an ingested project is 1 when the market cap is
  null or zero, and otherwise the score of the first threshold the market cap is strictly
  below, in ascending order (below 20M gives 10, 50M 9, 100M 8, 200M 7, 500M 5, 1B 3, else
  1); calculate_valuation_potential applies these thresholds to every number, and gives 10
  for 19,999,999, 9 for 20,000,000 and 1 for 1,000,000,000.
\<close>

theorem valuation_potential_guarded:
  "(process_coingecko_data md = Inr p \<longrightarrow>
      project.valuation_potential p =
        (case get_default md ''market_cap'' PNone of
           PNum c \<Rightarrow> if c = 0 then 1 else spec_valuation_potential (Some c)
         | _ \<Rightarrow> 1)) \<and>
   calculate_valuation_potential (PNum cap) = Inr (spec_valuation_potential (Some cap)) \<and>
   calculate_valuation_potential (PNum 19999999) = Inr 10 \<and>
   calculate_valuation_potential (PNum 20000000) = Inr 9 \<and>
   calculate_valuation_potential (PNum 1000000000) = Inr 1"
proof -
  have "project.valuation_potential p =
        (case get_default md ''market_cap'' PNone of
           PNum c \<Rightarrow> if c = 0 then 1 else spec_valuation_potential (Some c)
         | _ \<Rightarrow> 1)" if run: "process_coingecko_data md = Inr p"
  proof -
    from process_coingecko_data_Inr [OF run] obtain v_valuation where
      v: "(if truthy (get_default md ''market_cap'' PNone)
           then calculate_valuation_potential (get_default md ''market_cap'' PNone)
           else Inr 1) = Inr v_valuation"
      and p: "project.valuation_potential p = v_valuation"
      by auto
    show ?thesis
      using v unfolding p
      by (cases "get_default md ''market_cap'' PNone")
        (auto simp: valuation_chain valuation_raises split: if_splits)
  qed
  moreover have "calculate_valuation_potential (PNum 19999999) = Inr 10"
    "calculate_valuation_potential (PNum 20000000) = Inr 9"
    "calculate_valuation_potential (PNum 1000000000) = Inr 1"
    by (simp_all add: calculate_valuation_potential_def)
  ultimately show ?thesis
    using valuation_chain by blast
qed

theorem valuation_potential_guarded_witness:
  "\<exists>p. process_coingecko_data
          (sample_market_data (PStr ''ai'') (PNum 30000000) (PNum 95) (PNum 100)) = Inr p \<and>
        project.valuation_potential p = 9"
proof -
  from sample_run obtain p where
    run: "process_coingecko_data
            (sample_market_data (PStr ''ai'') (PNum 30000000) (PNum 95) (PNum 100)) = Inr p"
    by blast
  have "get_default (sample_market_data (PStr ''ai'') (PNum 30000000) (PNum 95) (PNum 100))
          ''market_cap'' PNone = PNum 30000000"
    by (simp add: get_default_def sample_market_data_def)
  with valuation_potential_guarded
         [of "sample_market_data (PStr ''ai'') (PNum 30000000) (PNum 95) (PNum 100)" p] run
  have "project.valuation_potential p = 9"
    by (simp add: spec_valuation_potential_def spec_valuation_buckets_def)
  with run show ?thesis by blast
qed

text \<open>
  C10. In the ingestion pipeline a market-data record whose market_cap is exactly 0 gets
  valuation_potential = 1, because the truth test of the guard fails for 0 as it does for
  a missing market cap, where calculate_valuation_potential itself gives 10 for 0.
\<close>

theorem zero_market_cap_scores_one:
  "process_coingecko_data md = Inr p \<Longrightarrow> md ''market_cap'' = Some (PNum 0) \<Longrightarrow>
     project.valuation_potential p = 1 \<and> calculate_valuation_potential (PNum 0) = Inr 10"
proof -
  assume run: "process_coingecko_data md = Inr p" and cap: "md ''market_cap'' = Some (PNum 0)"
  from process_coingecko_data_Inr [OF run] obtain v_valuation where
    v: "(if truthy (get_default md ''market_cap'' PNone)
         then calculate_valuation_potential (get_default md ''market_cap'' PNone)
         else Inr 1) = Inr v_valuation"
    and p: "project.valuation_potential p = v_valuation"
    by auto
  have "get_default md ''market_cap'' PNone = PNum 0"
    using cap by (simp add: get_default_def)
  with v p have "project.valuation_potential p = 1" by simp
  moreover have "calculate_valuation_potential (PNum 0) = Inr 10"
    by (simp add: calculate_valuation_potential_def)
  ultimately show ?thesis by simp
qed

theorem zero_market_cap_scores_one_witness:
  "sample_market_data (PStr ''ai'') (PNum 0) (PNum 95) (PNum 100) ''market_cap'' =
     Some (PNum 0) \<and>
   (\<exists>p. process_coingecko_data
           (sample_market_data (PStr ''ai'') (PNum 0) (PNum 95) (PNum 100)) = Inr p \<and>
        project.valuation_potential p = 1)"
proof -
  have cap: "sample_market_data (PStr ''ai'') (PNum 0) (PNum 95) (PNum 100) ''market_cap'' =
      Some (PNum 0)"
    by (simp add: sample_market_data_def)
  from sample_run_zero_cap obtain p where
    run: "process_coingecko_data
            (sample_market_data (PStr ''ai'') (PNum 0) (PNum 95) (PNum 100)) = Inr p"
    by blast
  from zero_market_cap_scores_one [OF run cap] run cap show ?thesis by blast
qed

subsection \<open>Supply risk\<close>

text \<open>
  C8. calculate_supply_risk returns 1 whenever the total supply is null or not positive,
  whatever the circulating supply; for a positive total it scores the ratio
  circulating / total by the first lower bound the ratio reaches (0.90 gives 10, 0.75 9,
  0.50 7, 0.25 5, 0.10 2, else 1); it gives 10 for (95, 100) and 1 for (5, 100).
\<close>

theorem supply_risk_bands:
  "calculate_supply_risk c PNone = Inr 1 \<and>
   (t \<le> 0 \<longrightarrow> calculate_supply_risk c (PNum t) = Inr 1) \<and>
   (0 < t \<longrightarrow>
      calculate_supply_risk (PNum circ) (PNum t) = Inr (spec_ratio_score (circ / t))) \<and>
   calculate_supply_risk (PNum 95) (PNum 100) = Inr 10 \<and>
   calculate_supply_risk (PNum 5) (PNum 100) = Inr 1"
  by (simp add: calculate_supply_risk_def spec_ratio_score_def spec_ratio_bands_def Let_def)

theorem supply_risk_bands_witness:
  "calculate_supply_risk (PNum 95) (PNum 0) = Inr 1 \<and>
   calculate_supply_risk (PNum 95) (PNum (- 3)) = Inr 1 \<and>
   calculate_supply_risk (PNum 80) (PNum 100) = Inr 9 \<and>
   calculate_supply_risk (PNum 75) (PNum 100) = Inr 9 \<and>
   calculate_supply_risk (PNum 10) (PNum 100) = Inr 2"
  using supply_risk_bands [of "PNum 95" 0] supply_risk_bands [of "PNum 95" "- 3"]
    supply_risk_bands [of _ 100 80] supply_risk_bands [of _ 100 75]
    supply_risk_bands [of _ 100 10]
  by (simp add: spec_ratio_score_def spec_ratio_bands_def)

subsection \<open>The wizard's Omega score\<close>

text \<open>\<open>toFixed2\<close> rounds to two decimals: the result is within half a hundredth of the
  argument and, below \<open>10^21\<close>, a whole number of hundredths.\<close>

lemma toFixed2_near: "\<bar>toFixed2 x - x\<bar> \<le> 1 / 200"
proof -
  have up: "\<bar>of_int \<lfloor>y * 100 + 1 / 2\<rfloor> / 100 - y\<bar> \<le> 1 / 200" for y :: real
  proof -
    define n where "n = \<lfloor>y * 100 + 1 / 2\<rfloor>"
    have "of_int n \<le> y * 100 + 1 / 2" and "y * 100 + 1 / 2 < of_int n + 1"
      unfolding n_def by linarith+
    then have "\<bar>of_int n / 100 - y\<bar> \<le> 1 / 200"
      by linarith
    then show ?thesis unfolding n_def .
  qed
  show ?thesis
  proof (cases "\<bar>x\<bar> \<ge> 10 ^ 21")
    case True
    then show ?thesis by (simp add: toFixed2_def)
  next
    case small: False
    show ?thesis
    proof (cases "x < 0")
      case True
      with small have "toFixed2 x = - (of_int \<lfloor>- x * 100 + 1 / 2\<rfloor> / 100)"
        by (simp add: toFixed2_def)
      with up [of "- x"] show ?thesis by linarith
    next
      case False
      with small have "toFixed2 x = of_int \<lfloor>x * 100 + 1 / 2\<rfloor> / 100"
        by (simp add: toFixed2_def)
      with up [of x] show ?thesis by linarith
    qed
  qed
qed

lemma toFixed2_hundredths: "\<bar>x\<bar> < 10 ^ 21 \<Longrightarrow> \<exists>n::int. toFixed2 x = of_int n / 100"
proof -
  assume "\<bar>x\<bar> < 10 ^ 21"
  then have "toFixed2 x = of_int \<lfloor>x * 100 + 1 / 2\<rfloor> / 100 \<or>
             toFixed2 x = of_int (- \<lfloor>- x * 100 + 1 / 2\<rfloor>) / 100"
    by (simp add: toFixed2_def)
  then show ?thesis by blast
qed

lemmas js_defs = js_add_def js_mul_def js_div_def

lemmas digit_defs = parse_digits_def digit_value_def

text \<open>
  C4 as stated: omega_score is the weighted sum of the returned pillar scores. For the
  project of the acceptance scenario, with sub-scores (9, 7, 8), (10, 9, 7) and data
  score 8, the returned scores are 8, 8.67, 8 and 8.17, and the weighted sum of the
  returned pillar scores is 8.1675 (8.1666.. over the means before rounding).
\<close>

theorem omega_score_formula_counterexample:
  "scores.narrative_score (calculateOmegaScore parse_digits acceptance_project) = Some 8 \<and>
   scores.tokenomics_score (calculateOmegaScore parse_digits acceptance_project) = Some (867 / 100) \<and>
   scores.data_score (calculateOmegaScore parse_digits acceptance_project) = Some 8 \<and>
   scores.omega_score (calculateOmegaScore parse_digits acceptance_project) = Some (817 / 100) \<and>
   (817 / 100 :: real) \<noteq> 8 * 0.25 + 867 / 100 * 0.25 + 8 * 0.50 \<and>
   (817 / 100 :: real) \<noteq> 8 * 0.25 + 26 / 3 * 0.25 + 8 * 0.50"
  by (simp add: calculateOmegaScore_def acceptance_project_def parseFloat_def digit_defs Let_def js_defs toFixed2_def)

text \<open>
  C4, amended. For every project whose seven sub-scores are present (each read by
  parseFloat as a number), narrative_score is the mean of sector_strength,
  value_proposition and backing_team rounded to two decimals, tokenomics_score is the mean
  of valuation_potential, token_utility and supply_risk rounded to two decimals,
  data_score is the accumulation signal, and omega_score is
  mean_narrative * 0.25 + mean_tokenomics * 0.25 + data_score * 0.50, taken over the
  means before rounding, and itself rounded to two decimals. The sub-scores (9, 7, 8)
  give narrative 8.0 and (10, 9, 7) give tokenomics 8.67.
\<close>

theorem omega_score_rounded:
  assumes "parseFloat prefix (project_data.sector_strength p) = Some s1"
    and "parseFloat prefix (project_data.value_proposition p) = Some s2"
    and "parseFloat prefix (project_data.backing_team p) = Some s3"
    and "parseFloat prefix (project_data.valuation_potential p) = Some t1"
    and "parseFloat prefix (project_data.token_utility p) = Some t2"
    and "parseFloat prefix (project_data.supply_risk p) = Some t3"
    and "parseFloat prefix (accumulation_signal p) = Some d"
  shows "scores.narrative_score (calculateOmegaScore prefix p) = Some (toFixed2 ((s1 + s2 + s3) / 3)) \<and>
     scores.tokenomics_score (calculateOmegaScore prefix p) = Some (toFixed2 ((t1 + t2 + t3) / 3)) \<and>
     scores.data_score (calculateOmegaScore prefix p) = Some d \<and>
     scores.omega_score (calculateOmegaScore prefix p) =
       Some (toFixed2 ((s1 + s2 + s3) / 3 * 0.25 + (t1 + t2 + t3) / 3 * 0.25 + d * 0.50)) \<and>
     (\<forall>x. \<bar>toFixed2 x - x\<bar> \<le> 1 / 200 \<and> (\<bar>x\<bar> < 10 ^ 21 \<longrightarrow> (\<exists>n::int. toFixed2 x = of_int n / 100))) \<and>
     toFixed2 ((9 + 7 + 8) / 3) = 8.0 \<and>
     toFixed2 ((10 + 9 + 7) / 3) = 8.67"
proof -
  have ex: "toFixed2 ((9 + 7 + 8) / 3) = 8.0" "toFixed2 ((10 + 9 + 7) / 3) = 8.67"
    by (simp_all add: toFixed2_def)
  have "scores.narrative_score (calculateOmegaScore prefix p) = Some (toFixed2 ((s1 + s2 + s3) / 3))"
    "scores.tokenomics_score (calculateOmegaScore prefix p) = Some (toFixed2 ((t1 + t2 + t3) / 3))"
    "scores.data_score (calculateOmegaScore prefix p) = Some d"
    "scores.omega_score (calculateOmegaScore prefix p) =
       Some (toFixed2 ((s1 + s2 + s3) / 3 * 0.25 + (t1 + t2 + t3) / 3 * 0.25 + d * 0.50))"
    using assms by (simp_all add: calculateOmegaScore_def Let_def js_defs)
  with ex toFixed2_near toFixed2_hundredths show ?thesis by blast
qed

theorem omega_score_rounded_witness:
  "scores.narrative_score (calculateOmegaScore parse_digits acceptance_project) = Some 8 \<and>
   scores.tokenomics_score (calculateOmegaScore parse_digits acceptance_project) = Some (867 / 100) \<and>
   scores.omega_score (calculateOmegaScore parse_digits acceptance_project) = Some (817 / 100)"
proof -
  have fields:
    "parseFloat parse_digits (project_data.sector_strength acceptance_project) = Some 9"
    "parseFloat parse_digits (project_data.value_proposition acceptance_project) = Some 7"
    "parseFloat parse_digits (project_data.backing_team acceptance_project) = Some 8"
    "parseFloat parse_digits (project_data.valuation_potential acceptance_project) = Some 10"
    "parseFloat parse_digits (project_data.token_utility acceptance_project) = Some 9"
    "parseFloat parse_digits (project_data.supply_risk acceptance_project) = Some 7"
    "parseFloat parse_digits (accumulation_signal acceptance_project) = Some 8"
    by (simp_all add: acceptance_project_def parseFloat_def digit_defs)
  from omega_score_rounded [OF fields] show ?thesis
    by (simp add: toFixed2_def)
qed


subsection \<open>CSV validation and the analysis window\<close>

lemma columns_assign: "columns (assign df h cells) = columns df"
  by (simp add: assign_def)

lemma length_rows_assign:
  "length cells = length (rows df) \<Longrightarrow> length (rows (assign df h cells)) = length (rows df)"
  by (simp add: assign_def)

lemma column_assign_same:
  "length cells = length (rows df) \<Longrightarrow> column (assign df h cells) h = cells"
  by (auto simp: assign_def column_def intro!: nth_equalityI)

lemma column_assign_other:
  "length cells = length (rows df) \<Longrightarrow> h' \<noteq> h \<Longrightarrow> column (assign df h cells) h' = column df h'"
  by (auto simp: assign_def column_def intro!: nth_equalityI)

lemma length_column: "length (column df h) = length (rows df)"
  by (simp add: column_def)

lemma to_numeric_cases: "is_number (to_numeric coerce c) \<or> to_numeric coerce c = NaN"
  by (simp add: to_numeric_def split: cell.splits option.splits)

lemma isna_to_numeric: "isna (to_numeric coerce c) \<longleftrightarrow> \<not> is_number (to_numeric coerce c)"
  using to_numeric_cases [of coerce c] by (auto simp: isna_def)

lemma coerced_close:
  "column (coerced coerce df) ''close'' = map (to_numeric coerce) (column df ''close'')"
  by (simp add: coerced_def column_assign_other column_assign_same length_rows_assign length_column)

lemma coerced_delta:
  "column (coerced coerce df) ''Volume Delta (Close)'' =
     map (to_numeric coerce) (column df ''Volume Delta (Close)'')"
  by (simp add: coerced_def column_assign_same length_rows_assign length_column)

lemma list_ex_isna_column:
  "list_ex isna (map (to_numeric coerce) (column df h)) \<longleftrightarrow>
     (\<exists>r \<in> set (rows df). non_numeric coerce (r h))"
  by (simp add: list_ex_iff column_def non_numeric_def)

lemma parse_unfold:
  assumes "read_csv csv_text = Inr df"
  shows "parse_and_validate_csv read_csv coerce csv_text =
     (if filter (\<lambda>h. h \<notin> set (columns df)) required_headers \<noteq> []
      then (None, Some (MissingHeaders (filter (\<lambda>h. h \<notin> set (columns df)) required_headers)))
      else if length (rows df) < 90
        then (None, Some (InsufficientPeriods (length (rows df)) 90))
      else if (\<exists>r \<in> set (rows df). non_numeric coerce (r ''close'') \<or>
                 non_numeric coerce (r ''Volume Delta (Close)''))
        then (None, Some InvalidNumericData)
        else (Some (coerced coerce df), None))"
proof -
  define df1 where "df1 = assign df ''close'' (map (to_numeric coerce) (column df ''close''))"
  have delta1: "column df1 ''Volume Delta (Close)'' = column df ''Volume Delta (Close)''"
    unfolding df1_def by (simp add: column_assign_other length_column)
  have df2: "assign df1 ''Volume Delta (Close)''
      (map (to_numeric coerce) (column df1 ''Volume Delta (Close)'')) = coerced coerce df"
    unfolding delta1 unfolding df1_def coerced_def ..
  have bad: "list_ex isna (column (coerced coerce df) ''close'') \<or>
      list_ex isna (column (coerced coerce df) ''Volume Delta (Close)'') \<longleftrightarrow>
      (\<exists>r \<in> set (rows df). non_numeric coerce (r ''close'') \<or>
                 non_numeric coerce (r ''Volume Delta (Close)''))"
    unfolding coerced_close coerced_delta list_ex_isna_column by blast
  have "parse_and_validate_csv read_csv coerce csv_text =
     (if filter (\<lambda>h. h \<notin> set (columns df)) required_headers \<noteq> []
      then (None, Some (MissingHeaders (filter (\<lambda>h. h \<notin> set (columns df)) required_headers)))
      else if length (rows df) < 90
        then (None, Some (InsufficientPeriods (length (rows df)) 90))
      else if list_ex isna (column (coerced coerce df) ''close'') \<or>
              list_ex isna (column (coerced coerce df) ''Volume Delta (Close)'')
        then (None, Some InvalidNumericData)
        else (Some (coerced coerce df), None))"
    unfolding parse_and_validate_csv_def assms Let_def sum.case df1_def [symmetric] df2 ..
  then show ?thesis unfolding bad .
qed

text \<open>
  C3. parse_and_validate_csv validates in a fixed order and rejects the whole submission
  with one error: a frame that lacks a required header (time, close, Volume Delta (Close))
  is rejected with MissingHeaders naming the absent headers, whatever its number of rows; a
  frame with the three headers and fewer than 90 rows is rejected with InsufficientPeriods,
  the number of rows found and the required 90; a frame with the three headers and at
  least 90 rows in which some row has a non-numeric close or volume delta is rejected with
  InvalidNumericData. A frame with a non-numeric cell in one of the two columns is
  rejected in every case, and on every rejection no frame is returned, so that nothing is
  left to score.
\<close>

theorem csv_validation_order:
  assumes "read_csv csv_text = Inr df"
  shows
    "(filter (\<lambda>h. h \<notin> set (columns df)) required_headers \<noteq> [] \<longrightarrow>
        parse_and_validate_csv read_csv coerce csv_text =
          (None, Some (MissingHeaders (filter (\<lambda>h. h \<notin> set (columns df)) required_headers)))) \<and>
     (set required_headers \<subseteq> set (columns df) \<and> length (rows df) < 90 \<longrightarrow>
        parse_and_validate_csv read_csv coerce csv_text =
          (None, Some (InsufficientPeriods (length (rows df)) 90))) \<and>
     (set required_headers \<subseteq> set (columns df) \<and> 90 \<le> length (rows df) \<and>
      (\<exists>r \<in> set (rows df). non_numeric coerce (r ''close'') \<or>
                 non_numeric coerce (r ''Volume Delta (Close)'')) \<longrightarrow>
        parse_and_validate_csv read_csv coerce csv_text = (None, Some InvalidNumericData)) \<and>
     ((\<exists>r \<in> set (rows df). non_numeric coerce (r ''close'') \<or>
                 non_numeric coerce (r ''Volume Delta (Close)'')) \<longrightarrow>
        (\<exists>e. parse_and_validate_csv read_csv coerce csv_text = (None, Some e))) \<and>
     (snd (parse_and_validate_csv read_csv coerce csv_text) \<noteq> None \<longrightarrow>
        fst (parse_and_validate_csv read_csv coerce csv_text) = None)"
proof -
  have none: "filter (\<lambda>h. h \<notin> set (columns df)) required_headers = [] \<longleftrightarrow>
      set required_headers \<subseteq> set (columns df)"
    by (auto simp: filter_empty_conv)
  show ?thesis
    unfolding parse_unfold [of read_csv csv_text df coerce, OF assms] none by auto
qed


theorem csv_validation_order_witness:
  "parse_and_validate_csv
     (read_as \<lparr> columns = [''time'', ''close''],
               rows = replicate 95 (sample_row (Str ''d'') (Num 1) (Num 1)) \<rparr>) parse_digits [] =
     (None, Some (MissingHeaders [''Volume Delta (Close)''])) \<and>
   parse_and_validate_csv
     (read_as (sample_frame (replicate 89 (sample_row (Str ''d'') (Num 1) (Num 1))))) parse_digits [] =
     (None, Some (InsufficientPeriods 89 90)) \<and>
   parse_and_validate_csv
     (read_as (sample_frame (replicate 89 (sample_row (Str ''d'') (Num 1) (Num 1)) @
                             [sample_row (Str ''d'') (Str ''abc'') (Num 1)]))) parse_digits [] =
     (None, Some InvalidNumericData)"
  using
    csv_validation_order [of "read_as \<lparr> columns = [''time'', ''close''],
               rows = replicate 95 (sample_row (Str ''d'') (Num 1) (Num 1)) \<rparr>" "[]" _ parse_digits]
    csv_validation_order [of "read_as (sample_frame (replicate 89 (sample_row (Str ''d'') (Num 1) (Num 1))))"
       "[]" _ parse_digits]
    csv_validation_order [of "read_as (sample_frame (replicate 89 (sample_row (Str ''d'') (Num 1) (Num 1)) @
                             [sample_row (Str ''d'') (Str ''abc'') (Num 1)]))" "[]" _ parse_digits]
  by (simp add: read_as_def required_headers_def sample_frame_def sample_row_def non_numeric_def
      to_numeric_def isna_def parse_digits_def digit_value_def)

lemma length_cumsum_from: "length (cumsum_from acc xs) = length xs"
  by (induction xs arbitrary: acc) auto

lemma length_cumsum: "length (cumsum xs) = length xs"
  by (cases xs) (auto simp: length_cumsum_from)

lemma cumsum_from_nth:
  "i < length xs \<Longrightarrow>
     cumsum_from acc xs ! i = (if i = 0 then acc else cumsum_from acc xs ! (i - 1)) + xs ! i"
proof (induction xs arbitrary: acc i)
  case Nil
  then show ?case by simp
next
  case (Cons x xs)
  show ?case
  proof (cases i)
    case 0
    then show ?thesis by simp
  next
    case (Suc j)
    with Cons.prems have "j < length xs" by simp
    from Cons.IH [OF this, of "acc + x"] Suc show ?thesis
      by (cases j) auto
  qed
qed

lemma cumsum_recurrence:
  "xs \<noteq> [] \<Longrightarrow> cumsum xs ! 0 = xs ! 0"
  "0 < i \<Longrightarrow> i < length xs \<Longrightarrow> cumsum xs ! i = cumsum xs ! (i - 1) + xs ! i"
proof -
  show "xs \<noteq> [] \<Longrightarrow> cumsum xs ! 0 = xs ! 0" by (cases xs) auto
  show "0 < i \<Longrightarrow> i < length xs \<Longrightarrow> cumsum xs ! i = cumsum xs ! (i - 1) + xs ! i"
  proof (cases xs)
    case Nil
    assume "i < length xs"
    with Nil show ?thesis by simp
  next
    case (Cons x ys)
    assume "0 < i" "i < length xs"
    then obtain j where j: "i = Suc j" "j < length ys"
      using Cons by (cases i) auto
    from cumsum_from_nth [OF j(2), of x] j(1) Cons show ?thesis
      by (cases j) auto
  qed
qed

lemma rows_tail: "rows (tail n df) = drop (length (rows df) - n) (rows df)"
  by (simp add: tail_def)

lemma columns_tail: "columns (tail n df) = columns df"
  by (simp add: tail_def)

lemma column_tail: "column (tail n df) h = drop (length (rows df) - n) (column df h)"
  by (simp add: column_def tail_def drop_map)


lemma columns_coerced: "columns (coerced coerce df) = columns df"
  by (simp add: coerced_def columns_assign)

lemma length_rows_coerced: "length (rows (coerced coerce df)) = length (rows df)"
  by (simp add: coerced_def length_rows_assign length_column)

lemma parse_Some:
  assumes "parse_and_validate_csv read_csv coerce csv_text = (Some df, e)"
  shows "e = None \<and> validated df \<and> 90 \<le> length (rows df)"
proof (cases "read_csv csv_text")
  case (Inl msg)
  with assms show ?thesis by (simp add: parse_and_validate_csv_def)
next
  case (Inr df0)
  from assms have ok: "filter (\<lambda>h. h \<notin> set (columns df0)) required_headers = []"
    "90 \<le> length (rows df0)"
    "\<forall>r \<in> set (rows df0). \<not> non_numeric coerce (r ''close'') \<and>
        \<not> non_numeric coerce (r ''Volume Delta (Close)'')"
    "df = coerced coerce df0" "e = None"
    unfolding parse_unfold [of read_csv csv_text df0 coerce, OF Inr]
    by (auto split: if_splits)
  from ok(1) have hdr: "set required_headers \<subseteq> set (columns df0)"
    by (auto simp: filter_empty_conv)
  from ok(3) have "list_all is_number (column df ''close'')"
    "list_all is_number (column df ''Volume Delta (Close)'')"
    unfolding ok(4) coerced_close coerced_delta
    by (simp_all add: list_all_iff column_def non_numeric_def isna_to_numeric)
  with hdr ok show ?thesis
    by (simp add: validated_def columns_coerced length_rows_coerced)
qed

lemma numeric_column_tail:
  assumes "h \<in> set (columns df)" and "list_all is_number (column df h)"
  shows "numeric_column (tail n df) h =
     Some (map num_value (drop (length (rows df) - n) (column df h)))"
proof -
  from assms(2) have "list_all is_number (drop (length (rows df) - n) (column df h))"
    by (auto simp: list_all_iff dest: in_set_dropD)
  with assms(1) show ?thesis
    by (simp add: numeric_column_def columns_tail column_tail)
qed

lemma num_value_is_num: "is_number c \<Longrightarrow> Num (num_value c) = c"
  by (cases c) auto

text \<open>
  C9. For every validated series (a frame returned by parse_and_validate_csv, which has at
  least 90 rows), calculate_accumulation_signal analyses exactly the last 90 rows in their
  original order, its cvd is the running sum of the volume delta over these 90 rows
  (cvd[0] = delta[0], cvd[i] = cvd[i-1] + delta[i]), it returns a result, and the
  metadata report periods_analyzed = 90, with the slopes fitted against 0..89.
\<close>

theorem trend_window:
  assumes "parse_and_validate_csv read_csv coerce csv_text = (Some df, e)"
  shows "90 \<le> length (rows df) \<and>
     rows (tail 90 df) = drop (length (rows df) - 90) (rows df) \<and>
     length (rows (tail 90 df)) = 90 \<and>
     (\<forall>i<90. rows (tail 90 df) ! i = rows df ! (length (rows df) - 90 + i)) \<and>
     (\<exists>closes deltas.
        numeric_column (tail 90 df) ''close'' = Some closes \<and>
        numeric_column (tail 90 df) ''Volume Delta (Close)'' = Some deltas \<and>
        length closes = 90 \<and> length deltas = 90 \<and>
        (\<forall>i<90. (rows (tail 90 df) ! i) ''close'' = Num (closes ! i)) \<and>
        (\<forall>i<90. (rows (tail 90 df) ! i) ''Volume Delta (Close)'' = Num (deltas ! i)) \<and>
        length (cumsum deltas) = 90 \<and>
        cumsum deltas ! 0 = deltas ! 0 \<and>
        (\<forall>i. 0 < i \<and> i < 90 \<longrightarrow> cumsum deltas ! i = cumsum deltas ! (i - 1) + deltas ! i) \<and>
        (\<exists>score md.
           calculate_accumulation_signal linregress df = Some (score, md) \<and>
           periods_analyzed md = 90 \<and>
           price_slope md = fst (linregress (arange 90) closes) \<and>
           cvd_slope md = fst (linregress (arange 90) (cumsum deltas))))"
proof -
  from parse_Some [OF assms] have v: "validated df" and n: "90 \<le> length (rows df)"
    by simp_all
  define k where "k = length (rows df) - 90"
  define closes where "closes = map num_value (drop k (column df ''close''))"
  define deltas where "deltas = map num_value (drop k (column df ''Volume Delta (Close)''))"
  have window: "rows (tail 90 df) = drop k (rows df)"
    by (simp add: rows_tail k_def)
  have len: "length (rows (tail 90 df)) = 90"
    using n by (simp add: window k_def)
  have nth: "rows (tail 90 df) ! i = rows df ! (k + i)" if "i < 90" for i
    using that n by (simp add: window k_def)
  from v have hdr: "''close'' \<in> set (columns df)" "''Volume Delta (Close)'' \<in> set (columns df)"
    and nums: "list_all is_number (column df ''close'')"
      "list_all is_number (column df ''Volume Delta (Close)'')"
    by (auto simp: validated_def required_headers_def)
  have nc: "numeric_column (tail 90 df) ''close'' = Some closes"
    and nd: "numeric_column (tail 90 df) ''Volume Delta (Close)'' = Some deltas"
    unfolding closes_def deltas_def k_def
    by (rule numeric_column_tail [OF hdr(1) nums(1)], rule numeric_column_tail [OF hdr(2) nums(2)])
  have lc: "length closes = 90" and ld: "length deltas = 90"
    using n by (simp_all add: closes_def deltas_def k_def length_column)
  have cell: "(rows (tail 90 df) ! i) h = Num (map num_value (drop k (column df h)) ! i)"
    if "i < 90" and "list_all is_number (column df h)" for i h
  proof -
    have in_range: "k + i < length (rows df)"
      using that(1) n by (simp add: k_def)
    then have "is_number ((rows df ! (k + i)) h)"
      using that(2) by (simp add: list_all_length column_def)
    then show ?thesis
      using in_range that(1) n
      by (simp add: nth [OF that(1)] column_def num_value_is_num k_def)
  qed
  have cs: "length (cumsum deltas) = 90" "cumsum deltas ! 0 = deltas ! 0"
    "\<forall>i. 0 < i \<and> i < 90 \<longrightarrow> cumsum deltas ! i = cumsum deltas ! (i - 1) + deltas ! i"
  proof -
    from ld have ne: "deltas \<noteq> []" by auto
    show "length (cumsum deltas) = 90" by (simp add: length_cumsum ld)
    show "cumsum deltas ! 0 = deltas ! 0" by (rule cumsum_recurrence(1) [OF ne])
    show "\<forall>i. 0 < i \<and> i < 90 \<longrightarrow> cumsum deltas ! i = cumsum deltas ! (i - 1) + deltas ! i"
      using cumsum_recurrence(2) [where xs = deltas] ld by simp
  qed
  have run: "\<exists>score md.
           calculate_accumulation_signal linregress df = Some (score, md) \<and>
           periods_analyzed md = 90 \<and>
           price_slope md = fst (linregress (arange 90) closes) \<and>
           cvd_slope md = fst (linregress (arange 90) (cumsum deltas))"
    by (simp add: calculate_accumulation_signal_def Let_def nc nd len split: prod.splits)
  show ?thesis
    using n window len nth nc nd lc ld cell [OF _ nums(1)] cell [OF _ nums(2)] cs run
    unfolding closes_def [symmetric] deltas_def [symmetric] k_def [symmetric]
    by blast
qed

lemma sample_series_parsed:
  "parse_and_validate_csv (read_as sample_series) parse_digits [] =
     (Some (coerced parse_digits sample_series), None)"
  using parse_unfold [of "read_as sample_series" "[]" sample_series parse_digits]
  by (simp add: read_as_def sample_series_def required_headers_def sample_frame_def
      sample_row_def non_numeric_def to_numeric_def isna_def)

theorem trend_window_witness:
  "\<exists>df score md.
     parse_and_validate_csv (read_as sample_series) parse_digits [] = (Some df, None) \<and>
     length (rows df) = 91 \<and>
     rows (tail 90 df) = drop 1 (rows df) \<and>
     calculate_accumulation_signal least_squares df = Some (score, md) \<and>
     periods_analyzed md = 90"
proof -
  have "length (rows (coerced parse_digits sample_series)) = 91"
    by (simp add: length_rows_coerced sample_series_def sample_frame_def)
  with trend_window [OF sample_series_parsed, of least_squares] sample_series_parsed
  show ?thesis by auto
qed

subsection \<open>Awaiting data and Complete\<close>

lemma validated_analysis_runs:
  assumes "validated df"
  shows "\<exists>res. calculate_accumulation_signal linregress df = Some res"
proof -
  from assms have hdr: "''close'' \<in> set (columns df)"
      "''Volume Delta (Close)'' \<in> set (columns df)"
    and nums: "list_all is_number (column df ''close'')"
      "list_all is_number (column df ''Volume Delta (Close)'')"
    by (auto simp: validated_def required_headers_def)
  show ?thesis
    by (simp add: calculate_accumulation_signal_def Let_def
        numeric_column_tail [OF hdr(1) nums(1)] numeric_column_tail [OF hdr(2) nums(2)]
        split: prod.splits)
qed

lemma sample_series_analysed:
  "analyze_series least_squares (read_as sample_series) parse_digits [] \<noteq> None"
proof -
  from parse_Some [OF sample_series_parsed]
  have "validated (coerced parse_digits sample_series)" by simp
  from validated_analysis_runs [OF this, of least_squares] show ?thesis
    by (auto simp: analyze_series_def sample_series_parsed)
qed

lemma submit_series_flag:
  "has_data_score (submit_series linregress read_csv coerce csv_text p) \<longleftrightarrow>
     has_data_score p \<or> analyze_series linregress read_csv coerce csv_text \<noteq> None"
  by (simp add: submit_series_def split: option.splits)

lemma submit_series_omega:
  assumes "(project.omega_score p \<noteq> None) = has_data_score p"
  shows "(project.omega_score (submit_series linregress read_csv coerce csv_text p) \<noteq> None) =
     has_data_score (submit_series linregress read_csv coerce csv_text p)"
  using assms by (simp add: submit_series_def split: option.splits)

lemma submit_all_flag:
  "has_data_score (submit_all linregress read_csv coerce texts p) \<longleftrightarrow>
     has_data_score p \<or> (\<exists>t \<in> set texts. analyze_series linregress read_csv coerce t \<noteq> None)"
  by (induction texts arbitrary: p) (auto simp: submit_series_flag)

lemma submit_all_omega:
  assumes "(project.omega_score p \<noteq> None) = has_data_score p"
  shows "(project.omega_score (submit_all linregress read_csv coerce texts p) \<noteq> None) =
     has_data_score (submit_all linregress read_csv coerce texts p)"
  using assms
proof (induction texts arbitrary: p)
  case Nil
  then show ?case by simp
next
  case (Cons t texts)
  from Cons.IH [OF submit_series_omega [OF Cons.prems]] show ?case by simp
qed

lemma Complete_iff_flag: "(availability_state p = Complete) = has_data_score p"
  by (simp add: availability_state_def)

text \<open>
  C5. For every automated asset, that is, a project returned by process_coingecko_data and
  taken through any sequence of series submissions, omega_score exists if and only if the
  availability state is Complete, and the state is Complete exactly when the analysis of
  one of the submitted series has succeeded. A freshly ingested asset has data_score and
  omega_score null and has_data_score false, and is AwaitingData. For every project that
  is awaiting data the card shows the text N/A with the label Awaiting Data in place of
  the Omega score, never a number.
\<close>

theorem awaiting_data_state:
  "(process_coingecko_data md = Inr p \<longrightarrow>
      (project.omega_score (submit_all linregress read_csv coerce texts p) \<noteq> None) =
        (availability_state (submit_all linregress read_csv coerce texts p) = Complete) \<and>
      (availability_state (submit_all linregress read_csv coerce texts p) = Complete) =
        (\<exists>t \<in> set texts. analyze_series linregress read_csv coerce t \<noteq> None) \<and>
      project.data_score p = None \<and> project.omega_score p = None \<and> \<not> has_data_score p \<and>
      availability_state p = AwaitingData \<and>
      ((project.omega_score p \<noteq> None) = (\<not> isAwaitingData p))) \<and>
   (isAwaitingData q = (availability_state q = AwaitingData)) \<and>
   (isAwaitingData q \<longrightarrow>
      value_shown (omegaScoreDisplay q) = Text ''N/A'' \<and>
      label (omegaScoreDisplay q) = ''Awaiting Data'' \<and>
      (\<forall>n. value_shown (omegaScoreDisplay q) \<noteq> Number n))"
proof -
  have fresh_and_later:
    "(project.omega_score (submit_all linregress read_csv coerce texts p) \<noteq> None) =
        (availability_state (submit_all linregress read_csv coerce texts p) = Complete) \<and>
      (availability_state (submit_all linregress read_csv coerce texts p) = Complete) =
        (\<exists>t \<in> set texts. analyze_series linregress read_csv coerce t \<noteq> None) \<and>
      project.data_score p = None \<and> project.omega_score p = None \<and> \<not> has_data_score p \<and>
      availability_state p = AwaitingData \<and>
      ((project.omega_score p \<noteq> None) = (\<not> isAwaitingData p))"
    if run: "process_coingecko_data md = Inr p"
  proof -
    from process_coingecko_data_Inr [OF run]
    have fresh: "project.data_score p = None" "project.omega_score p = None"
      "\<not> has_data_score p"
      by auto
    then have start: "(project.omega_score p \<noteq> None) = has_data_score p"
      by simp
    from submit_all_omega [OF start]
    have "(project.omega_score (submit_all linregress read_csv coerce texts p) \<noteq> None) =
        (availability_state (submit_all linregress read_csv coerce texts p) = Complete)"
      by (simp add: Complete_iff_flag)
    moreover have "(availability_state (submit_all linregress read_csv coerce texts p) = Complete) =
        (\<exists>t \<in> set texts. analyze_series linregress read_csv coerce t \<noteq> None)"
      using fresh(3) by (simp add: Complete_iff_flag submit_all_flag)
    ultimately show ?thesis
      using fresh by (simp add: availability_state_def isAwaitingData_def)
  qed
  have state: "isAwaitingData q = (availability_state q = AwaitingData)"
    by (simp add: isAwaitingData_def availability_state_def)
  have card: "value_shown (omegaScoreDisplay q) = Text ''N/A'' \<and>
      label (omegaScoreDisplay q) = ''Awaiting Data'' \<and>
      (\<forall>n. value_shown (omegaScoreDisplay q) \<noteq> Number n)" if "isAwaitingData q"
    using that by (simp add: omegaScoreDisplay_def)
  from fresh_and_later state card show ?thesis by blast
qed

theorem awaiting_data_state_witness:
  "\<exists>p. process_coingecko_data
          (sample_market_data (PStr ''ai'') (PNum 30000000) (PNum 95) (PNum 100)) = Inr p \<and>
       project.omega_score p = None \<and> availability_state p = AwaitingData \<and>
       value_shown (omegaScoreDisplay p) = Text ''N/A'' \<and>
       availability_state
         (submit_all least_squares (read_as sample_series) parse_digits [[]] p) = Complete \<and>
       project.omega_score
         (submit_all least_squares (read_as sample_series) parse_digits [[]] p) \<noteq> None"
proof -
  from sample_run obtain p where
    run: "process_coingecko_data
            (sample_market_data (PStr ''ai'') (PNum 30000000) (PNum 95) (PNum 100)) = Inr p"
    by blast
  from awaiting_data_state
         [of "sample_market_data (PStr ''ai'') (PNum 30000000) (PNum 95) (PNum 100)" p
             least_squares "read_as sample_series" parse_digits "[[]]" p]
       run sample_series_analysed
  show ?thesis by auto
qed

end
